theory Spec2Isabelle
  imports Main
begin

section \<open>Data model of the path-name resolver (weenix/kernel/fs/namev.c)\<close>

text \<open>
  A \<open>vnode_t *\<close> is the address of a vnode or \<open>NULL\<close> (\<open>None\<close>). A C string is the
  list of its characters before the terminating NUL, so that \<open>strlen\<close> is \<open>length\<close>;
  a \<open>const char *\<close> that may be \<open>NULL\<close> is a \<open>string option\<close>. A writable
  \<open>char *\<close> buffer is the memory from the pointer onward, one character per offset,
  so that a store past the capacity the caller announced is visible as such.
\<close>

type_synonym vaddr = nat
type_synonym vptr = "vaddr option"
type_synonym cbuf = "nat \<Rightarrow> char"

definition NUL :: char where
  "NUL = CHR 0x00"

text \<open>
  The functions return \<open>0\<close>, \<open>-1\<close> or a negated errno macro. The macros are declared
  in errno.h; their numbers are not needed, the return expressions are kept as written.
\<close>

datatype errno = ENOTDIR | ENOENT | ERANGE | EINVAL

datatype retval = RInt int | RNeg errno

text \<open>
  A call either returns or brings the kernel down (a \<open>NULL\<close> pointer is dereferenced or
  called). A function containing a loop has an \<open>option\<close> around its outcome: \<open>None\<close>
  is a call that never returns.
\<close>

datatype 'a outcome = Fault | Done 'a

record vnode =
  vn_refcount :: int
  vn_vno :: nat
  vn_len :: int

record dirent =
  d_ino :: nat
  d_name :: string

text \<open>
  \<open>oplog\<close> records every call that reaches an operation of a vnode's \<open>vn_ops\<close>, newest
  first; \<open>kmem_live\<close> counts the blocks handed out by \<open>kmalloc\<close> and not yet given
  to \<open>kfree\<close>.
\<close>

datatype opcall = OpLookup vaddr string nat | OpCreate vaddr string nat | OpReaddir vaddr int

record kstate =
  vnodes :: "vaddr \<Rightarrow> vnode"
  oplog :: "opcall list"
  kmem_live :: int

text \<open>
  The operations of a vnode (\<open>dir->vn_ops\<close>) belong to the file system implementation.
  Each may be absent (a \<open>NULL\<close> function pointer). \<open>lookup\<close> and \<open>create\<close> return an
  \<open>int\<close>, what they store through their \<open>vnode_t **\<close> argument (\<open>None\<close>: nothing is
  stored) and the new kernel state; \<open>readdir\<close> returns an \<open>int\<close>, the entry it stores
  through its \<open>struct dirent *\<close> argument, and the new kernel state.
\<close>

record vnode_ops =
  vop_lookup :: "(kstate \<Rightarrow> vaddr \<Rightarrow> string \<Rightarrow> nat \<Rightarrow> int \<times> vptr option \<times> kstate) option"
  vop_create :: "(kstate \<Rightarrow> vaddr \<Rightarrow> string \<Rightarrow> nat \<Rightarrow> int \<times> vptr option \<times> kstate) option"
  vop_readdir :: "(kstate \<Rightarrow> vaddr \<Rightarrow> int \<Rightarrow> int \<times> dirent \<times> kstate) option"

text \<open>
  What namev.c reads from its surroundings: the global \<open>vfs_root_vn\<close>, the working
  directory \<open>curproc->p_cwd\<close>, the operation table of each vnode, and the macros
  \<open>O_CREAT\<close> (fcntl.h) and \<open>STR_MAX\<close>, whose values are declared outside namev.c.
\<close>

record kenv =
  vfs_root_vn :: vptr
  p_cwd :: vptr
  vn_ops :: "vaddr \<Rightarrow> vnode_ops"
  O_CREAT :: int
  STR_MAX :: nat

subsection \<open>Collaborators declared outside namev.c\<close>

text \<open>
  Modelled from the spec: \<open>vref\<close> and \<open>vput\<close> are defined in vnode.c. The spec has a
  node hold a reference count that an acquisition increments by one and a release
  decrements by one. The count is an \<open>int\<close>, so that a release too many shows.
\<close>

definition vref :: "kstate \<Rightarrow> vaddr \<Rightarrow> kstate" where
  "vref s a = s\<lparr>vnodes := (vnodes s)(a := (vnodes s a)\<lparr>vn_refcount := vn_refcount (vnodes s a) + 1\<rparr>)\<rparr>"

definition vput :: "kstate \<Rightarrow> vaddr \<Rightarrow> kstate" where
  "vput s a = s\<lparr>vnodes := (vnodes s)(a := (vnodes s a)\<lparr>vn_refcount := vn_refcount (vnodes s a) - 1\<rparr>)\<rparr>"

text \<open>
  Modelled from the spec: \<open>kmalloc\<close> and \<open>kfree\<close> are defined in mm/kmalloc.c; memory
  allocation is an external collaborator. Only the number of live blocks is kept, and an
  allocation is taken to succeed.
\<close>

definition kmalloc :: "kstate \<Rightarrow> kstate" where
  "kmalloc s = s\<lparr>kmem_live := kmem_live s + 1\<rparr>"

definition kfree :: "kstate \<Rightarrow> kstate" where
  "kfree s = s\<lparr>kmem_live := kmem_live s - 1\<rparr>"

text \<open>\<open>p[i]\<close> for a C string \<open>p\<close> and \<open>i \<le> strlen(p)\<close>: the terminator sits at \<open>strlen(p)\<close>.\<close>

definition char_at :: "string \<Rightarrow> nat \<Rightarrow> char" where
  "char_at p i = (if i < length p then p ! i else NUL)"

text \<open>
  \<open>strncpy(dst, src, n)\<close> stores exactly \<open>n\<close> characters: those of \<open>src\<close>, then NULs.
  \<open>memcpy(dst + off, src, n)\<close> stores \<open>n\<close> characters of the memory at \<open>src\<close>.
  \<open>strlen\<close> of a block of \<open>n\<close> characters is the offset of its first NUL.
\<close>

definition strncpy :: "cbuf \<Rightarrow> string \<Rightarrow> nat \<Rightarrow> cbuf" where
  "strncpy dst src n = (\<lambda>i. if i < n then char_at src i else dst i)"

definition memcpy :: "cbuf \<Rightarrow> nat \<Rightarrow> cbuf \<Rightarrow> nat \<Rightarrow> cbuf" where
  "memcpy dst off src n = (\<lambda>i. if off \<le> i \<and> i < off + n then src (i - off) else dst i)"

definition strlen_block :: "nat \<Rightarrow> cbuf \<Rightarrow> nat" where
  "strlen_block n m = length (takeWhile (\<lambda>c. c \<noteq> NUL) (map m [0..<n]))"

text \<open>\<open>size_t\<close> is unsigned: \<open>size - 1\<close> wraps to \<open>SIZE_MAX\<close> at \<open>size = 0\<close> (32 bits on i386).\<close>

definition size_dec :: "nat \<Rightarrow> nat" where
  "size_dec n = (if n = 0 then 2 ^ 32 - 1 else n - 1)"

section \<open>lookup (namev.c, lines 28-47)\<close>

text \<open>
  \<open>slot\<close> is what \<open>*result\<close> holds on entry; the function returns what it holds on exit.
  The parameter \<open>result\<close> is a local pointer: after \<open>result = &dir\<close> it designates the
  local variable \<open>dir\<close>, and every later \<open>*result\<close> reads or writes that variable.
\<close>

datatype result_target = CallerSlot | LocalDir

definition lookup ::
  "kenv \<Rightarrow> kstate \<Rightarrow> vptr \<Rightarrow> string option \<Rightarrow> nat \<Rightarrow> vptr \<Rightarrow> retval \<times> kstate \<times> vptr" where
  "lookup env s dir name len slot =
     (case dir of
        None \<Rightarrow> (RInt (- 1), s, slot)
      | Some d \<Rightarrow>
         (case slot of
            None \<Rightarrow> (RInt (- 1), s, slot)
          | Some _ \<Rightarrow>
             (case name of
                None \<Rightarrow> (RInt (- 1), s, slot)
              | Some nm \<Rightarrow>
                 (let result = (if nm = ''.'' then LocalDir else CallerSlot) in
                  case vop_lookup (vn_ops env d) of
                    None \<Rightarrow> (RNeg ENOTDIR, s, slot)
                  | Some f \<Rightarrow>
                     (case f (s\<lparr>oplog := OpLookup d nm len # oplog s\<rparr>) d nm len of
                        (r, w, s1) \<Rightarrow>
                          (let dir1 = (case w of
                                         None \<Rightarrow> dir
                                       | Some p \<Rightarrow> (if result = LocalDir then p else dir));
                               slot1 = (case w of
                                          None \<Rightarrow> slot
                                        | Some p \<Rightarrow> (if result = CallerSlot then p else slot))
                           in case (if result = LocalDir then dir1 else slot1) of
                                None \<Rightarrow> (RInt 0, s1, slot1)
                              | Some q \<Rightarrow> (RInt 0, vref s1 q, slot1)))))))"

section \<open>dir_namev (namev.c, lines 68-136)\<close>

text \<open>Lines 77-89: the choice of the node the walk starts from.\<close>

definition dir_namev_start :: "kenv \<Rightarrow> string \<Rightarrow> vptr \<Rightarrow> vptr" where
  "dir_namev_start env pathname base =
     (let prev_v_node = None;
          prev_v_node = (if char_at pathname 0 = CHR ''/'' then vfs_root_vn env else prev_v_node);
          prev_v_node = (if base = None then p_cwd env else base)
      in prev_v_node)"

text \<open>
  Lines 98-104: the inner \<open>while\<close>. Its body never changes \<open>i\<close>; it leaves the loop
  through \<open>break\<close> with a new \<open>end_index\<close>, or when its condition is false. The value
  is \<open>end_index\<close> after the loop.
\<close>

partial_function (option) dir_namev_scan :: "string \<Rightarrow> int \<Rightarrow> int \<Rightarrow> int option" where
  "dir_namev_scan pathname i end_index =
     (if i < int (length pathname) then
        (if char_at pathname (nat i) = CHR ''/'' then Some (i - 1)
         else dir_namev_scan pathname i end_index)
      else Some end_index)"

text \<open>
  The three output parameters \<open>*namelen\<close>, \<open>*name\<close> and \<open>*res_vnode\<close>: the record holds
  what the caller's variables contain.
\<close>

record namev_out =
  out_namelen :: nat
  out_name :: "string option"
  out_res_vnode :: vptr

text \<open>The local variables of the outer \<open>while(1)\<close>, lines 96-134.\<close>

record namev_vars =
  start_index :: int
  end_index :: int
  terminate :: int
  prev_v_node :: vptr
  next_v_node :: vptr

partial_function (option) dir_namev_loop ::
  "kenv \<Rightarrow> string \<Rightarrow> kstate \<Rightarrow> namev_vars \<Rightarrow> namev_out \<Rightarrow> (retval \<times> kstate \<times> namev_out) outcome option" where
  "dir_namev_loop env pathname s v out =
     (case dir_namev_scan pathname (start_index v) (end_index v) of
        None \<Rightarrow> None
      | Some e \<Rightarrow>
         (if start_index v = int (length pathname) then Some (Done (RInt 0, s, out))
          else
            (let n = e - start_index v + 1;
                 s1 = kmalloc s;
                 next_name = take (nat n) (drop (nat (start_index v)) pathname)
             in if n < 0 then Some Fault
                else if terminate v = 1 then
                  Some (Done (RInt 0, s1,
                    out\<lparr>out_namelen := length next_name, out_name := Some next_name,
                        out_res_vnode := prev_v_node v\<rparr>))
                else
                  (case lookup env s1 (prev_v_node v) (Some next_name) (length next_name) (next_v_node v) of
                     (r, s2, nxt) \<Rightarrow>
                       (if r \<noteq> RInt 0 then Some (Done (RInt (- 1), s2, out))
                        else
                          (case prev_v_node v of
                             None \<Rightarrow> Some Fault
                           | Some a \<Rightarrow>
                               dir_namev_loop env pathname (kfree (vput s2 a))
                                 (v\<lparr>start_index := e + 2, end_index := e,
                                    prev_v_node := nxt, next_v_node := nxt\<rparr>) out))))))"

definition dir_namev ::
  "kenv \<Rightarrow> kstate \<Rightarrow> string option \<Rightarrow> namev_out \<Rightarrow> vptr \<Rightarrow> (retval \<times> kstate \<times> namev_out) outcome option" where
  "dir_namev env s pathname out base =
     (case pathname of
        None \<Rightarrow> Some (Done (RInt (- 1), s, out))
      | Some p \<Rightarrow>
         (case dir_namev_start env p base of
            None \<Rightarrow> Some Fault
          | Some a \<Rightarrow>
              dir_namev_loop env p (vref s a)
                \<lparr>start_index = (if char_at p 0 = CHR ''/'' then 1 else 0), end_index = 0,
                 terminate = 0, prev_v_node = Some a, next_v_node = None\<rparr> out))"

section \<open>open_namev (namev.c, lines 146-174)\<close>

text \<open>
  \<open>res_vnode\<close> is what the caller's \<open>*res_vnode\<close> holds; the function returns what it
  holds on exit. The locals \<open>namelen\<close> and \<open>name\<close> are declared without an initial
  value: \<open>namelen0\<close> and \<open>name0\<close> are whatever they contain. A call through an absent
  \<open>create\<close> is a call through \<open>NULL\<close>.
\<close>

definition open_namev ::
  "kenv \<Rightarrow> kstate \<Rightarrow> string option \<Rightarrow> int \<Rightarrow> vptr \<Rightarrow> vptr \<Rightarrow> nat \<Rightarrow> string option
     \<Rightarrow> (retval \<times> kstate \<times> vptr) outcome option" where
  "open_namev env s pathname flag res_vnode base namelen0 name0 =
     (case pathname of
        None \<Rightarrow> Some (Done (RInt (- 1), s, res_vnode))
      | Some p \<Rightarrow>
         (case dir_namev env s pathname
                 \<lparr>out_namelen = namelen0, out_name = name0, out_res_vnode = None\<rparr> base of
            None \<Rightarrow> None
          | Some Fault \<Rightarrow> Some Fault
          | Some (Done (r, s1, out)) \<Rightarrow>
             (if r \<noteq> RInt 0 then Some (Done (RInt (- 1), s1, res_vnode))
              else
                (case lookup env s1 (out_res_vnode out) (out_name out) (out_namelen out) None of
                   (r2, s2, result) \<Rightarrow>
                     (if r2 \<noteq> RInt 0 then Some (Done (RInt (- 1), s2, res_vnode))
                      else if flag = O_CREAT env \<and> result = None then
                        (case out_res_vnode out of
                           None \<Rightarrow> Some Fault
                         | Some d \<Rightarrow>
                            (case vop_create (vn_ops env d) of
                               None \<Rightarrow> Some Fault
                             | Some f \<Rightarrow>
                                (case out_name out of
                                   None \<Rightarrow> Some Fault
                                 | Some nm \<Rightarrow>
                                    (case f (s2\<lparr>oplog := OpCreate d nm (out_namelen out) # oplog s2\<rparr>)
                                            d nm (out_namelen out) of
                                       (r3, w, s3) \<Rightarrow>
                                         (if r3 = - 1 then Some (Done (RInt (- 1), s3, res_vnode))
                                          else Some (Done (RInt 0, s3, res_vnode)))))))
                      else Some (Done (RInt 0, s2, res_vnode)))))))"

section \<open>lookup_name (namev.c, lines 186-215)\<close>

text \<open>Lines 200-209: the entry has been found, its name goes to the caller's buffer
  (\<open>sz\<close> is the parameter \<open>size\<close>).\<close>

definition lookup_name_copy :: "string \<Rightarrow> cbuf \<Rightarrow> nat \<Rightarrow> retval \<times> cbuf" where
  "lookup_name_copy dname buf sz =
     (let name_length = length dname
      in if sz < name_length + 1 then
           (RNeg ERANGE, (strncpy buf dname (size_dec sz))(sz := NUL))
         else (RInt 0, strncpy buf dname name_length))"

text \<open>
  Lines 194-212: the scan. \<open>dent\<close> is the local \<open>struct dirent *\<close>: \<open>None\<close> is \<open>NULL\<close>,
  \<open>Some e\<close> points to an entry holding \<open>e\<close>. \<open>dent->d_ino\<close> through \<open>NULL\<close> is a fault,
  and so is a call through an absent \<open>readdir\<close>.
\<close>

partial_function (option) lookup_name_loop ::
  "kenv \<Rightarrow> kstate \<Rightarrow> vaddr \<Rightarrow> vaddr \<Rightarrow> cbuf \<Rightarrow> nat \<Rightarrow> int \<Rightarrow> dirent option
     \<Rightarrow> (retval \<times> kstate \<times> cbuf) outcome option" where
  "lookup_name_loop env s dir entry buf sz offset dent =
     (if offset \<noteq> vn_len (vnodes s dir) then
        (case vop_readdir (vn_ops env dir) of
           None \<Rightarrow> Some Fault
         | Some f \<Rightarrow>
            (case f (s\<lparr>oplog := OpReaddir dir offset # oplog s\<rparr>) dir offset of
               (r, ent, s1) \<Rightarrow>
                 (case dent of
                    None \<Rightarrow> Some Fault
                  | Some _ \<Rightarrow>
                     (if d_ino ent = vn_vno (vnodes s1 entry) then
                        (case lookup_name_copy (d_name ent) buf sz of
                           (rv, buf1) \<Rightarrow> Some (Done (rv, s1, buf1)))
                      else lookup_name_loop env s1 dir entry buf sz r (Some ent)))))
      else Some (Done (RNeg ENOENT, s, buf)))"

definition lookup_name ::
  "kenv \<Rightarrow> kstate \<Rightarrow> vptr \<Rightarrow> vptr \<Rightarrow> cbuf \<Rightarrow> nat \<Rightarrow> (retval \<times> kstate \<times> cbuf) outcome option" where
  "lookup_name env s dir entry buf sz =
     (case dir of
        None \<Rightarrow> Some (Done (RInt (- 1), s, buf))
      | Some d \<Rightarrow>
         (case entry of
            None \<Rightarrow> Some (Done (RInt (- 1), s, buf))
          | Some e \<Rightarrow> lookup_name_loop env s d e buf sz 0 None))"

section \<open>lookup_dirpath (namev.c, lines 233-300)\<close>

text \<open>
  Lines 250-265: the walk towards the root. \<open>names_list\<close> holds the \<open>namebuf\<close> blocks,
  head first. The walk ends in an early \<open>return\<close> (\<open>Inl\<close>) or leaves the loop with the
  list and \<open>total_length\<close> (\<open>Inr\<close>).
\<close>

partial_function (option) lookup_dirpath_walk ::
  "kenv \<Rightarrow> kstate \<Rightarrow> vptr \<Rightarrow> vptr \<Rightarrow> cbuf list \<Rightarrow> nat
     \<Rightarrow> (kstate \<times> (retval + cbuf list \<times> nat)) outcome option" where
  "lookup_dirpath_walk env s up_vnode low_vnode names_list total_length =
     (if up_vnode \<noteq> low_vnode then
        (case lookup_name env (kmalloc s) up_vnode low_vnode (\<lambda>i. NUL) (size_dec (STR_MAX env)) of
           None \<Rightarrow> None
         | Some Fault \<Rightarrow> Some Fault
         | Some (Done (r, s2, b)) \<Rightarrow>
            (if r \<noteq> RInt 0 then Some (Done (s2, Inl (RInt (- 1))))
             else
               (let namebuf = (\<lambda>i. if i = 0 then CHR ''/'' else b (i - 1));
                    total1 = total_length + strlen_block (STR_MAX env) namebuf
                in case lookup env (kmalloc s2) up_vnode (Some ''..'') 3 up_vnode of
                     (r4, s4, up1) \<Rightarrow>
                       lookup_dirpath_walk env s4 up1 up_vnode (namebuf # names_list) total1)))
      else Some (Done (s, Inr (names_list, total_length))))"

text \<open>
  Lines 274-294: the segments go to the caller's buffer, and each list node and its
  \<open>namebuf\<close> are freed. Here \<open>osize \<ge> 1\<close>, and \<open>osize - offset\<close> is taken only under
  \<open>offset < osize - 1\<close>, so no subtraction wraps.
\<close>

fun lookup_dirpath_copy ::
  "nat \<Rightarrow> nat \<Rightarrow> cbuf list \<Rightarrow> kstate \<Rightarrow> cbuf \<Rightarrow> nat \<Rightarrow> kstate \<times> cbuf \<times> nat" where
  "lookup_dirpath_copy str_max osize [] s buf offset = (s, buf, offset)"
| "lookup_dirpath_copy str_max osize (nm # rest) s buf offset =
     (if offset < osize - 1 then
        (let required_length = strlen_block str_max nm;
             remaining_length = osize - offset
         in if remaining_length - 1 \<ge> required_length then
              lookup_dirpath_copy str_max osize rest (kfree (kfree s))
                (memcpy buf offset nm required_length) (offset + required_length)
            else
              lookup_dirpath_copy str_max osize rest (kfree (kfree s))
                ((memcpy buf offset nm (remaining_length - 1))(osize - 1 := NUL)) (osize - 1))
      else lookup_dirpath_copy str_max osize rest (kfree (kfree s)) buf offset)"

definition lookup_dirpath ::
  "kenv \<Rightarrow> kstate \<Rightarrow> vptr \<Rightarrow> cbuf option \<Rightarrow> nat \<Rightarrow> (retval \<times> kstate \<times> cbuf option) outcome option" where
  "lookup_dirpath env s dir buf osize =
     (case dir of
        None \<Rightarrow> Some (Done (RNeg ENOENT, s, buf))
      | Some d \<Rightarrow>
         (case buf of
            None \<Rightarrow> Some (Done (RNeg EINVAL, s, buf))
          | Some b \<Rightarrow>
             (if osize = 0 then Some (Done (RNeg EINVAL, s, buf))
              else
                (case lookup env s dir (Some ''..'') 3 None of
                   (r0, s0, up_vnode) \<Rightarrow>
                     (case lookup_dirpath_walk env s0 up_vnode dir [] 0 of
                        None \<Rightarrow> None
                      | Some Fault \<Rightarrow> Some Fault
                      | Some (Done (s1, Inl r)) \<Rightarrow> Some (Done (r, s1, buf))
                      | Some (Done (s1, Inr (names_list, total_length))) \<Rightarrow>
                         (if total_length + 1 > osize then Some (Done (RNeg ERANGE, s1, buf))
                          else
                            (case lookup_dirpath_copy (STR_MAX env) osize names_list s1 b 0 of
                               (s2, b1, offset) \<Rightarrow>
                                 Some (Done (RInt 0, s2,
                                   Some (if offset < osize - 1 then b1(offset + 1 := NUL)
                                         else b1))))))))))"

section \<open>A small file system for the scenarios\<close>

text \<open>
  The root directory (vnode 0) holds \<open>bin\<close> (1), \<open>abc\<close> (3) and \<open>tmp\<close> (4); \<open>bin\<close>
  holds \<open>ls\<close> (2). Every directory has its \<open>.\<close> and \<open>..\<close> entries, and the root is
  its own parent. The regular files 2 and 3 have no operation at all. The inode number
  of a vnode is its address, \<open>readdir\<close> returns the offset of the next entry, and the
  length of a directory is the number of its entries. The working directory is \<open>tmp\<close>.
\<close>

definition demo_entries :: "vaddr \<Rightarrow> (string \<times> vaddr) list" where
  "demo_entries a =
     (if a = 0 then [(''.'', 0), (''..'', 0), (''bin'', 1), (''abc'', 3), (''tmp'', 4)]
      else if a = 1 then [(''.'', 1), (''..'', 0), (''ls'', 2)]
      else if a = 4 then [(''.'', 4), (''..'', 0)]
      else [])"

definition demo_lookup :: "kstate \<Rightarrow> vaddr \<Rightarrow> string \<Rightarrow> nat \<Rightarrow> int \<times> vptr option \<times> kstate" where
  "demo_lookup s d nm len =
     (case map_of (demo_entries d) nm of
        None \<Rightarrow> (- 2, None, s)
      | Some c \<Rightarrow> (0, Some (Some c), s))"

definition demo_create :: "kstate \<Rightarrow> vaddr \<Rightarrow> string \<Rightarrow> nat \<Rightarrow> int \<times> vptr option \<times> kstate" where
  "demo_create s d nm len = (0, Some (Some 9), vref s 9)"

definition demo_readdir :: "kstate \<Rightarrow> vaddr \<Rightarrow> int \<Rightarrow> int \<times> dirent \<times> kstate" where
  "demo_readdir s d offset =
     (case drop (nat offset) (demo_entries d) of
        [] \<Rightarrow> (offset, \<lparr>d_ino = 0, d_name = []\<rparr>, s)
      | (nm, c) # _ \<Rightarrow> (offset + 1, \<lparr>d_ino = c, d_name = nm\<rparr>, s))"

definition demo_ops :: "vaddr \<Rightarrow> vnode_ops" where
  "demo_ops a =
     (if a = 0 \<or> a = 1 \<or> a = 4 then
        \<lparr>vop_lookup = Some demo_lookup, vop_create = Some demo_create,
         vop_readdir = Some demo_readdir\<rparr>
      else \<lparr>vop_lookup = None, vop_create = None, vop_readdir = None\<rparr>)"

definition demo_env :: kenv where
  "demo_env = \<lparr>vfs_root_vn = Some 0, p_cwd = Some 4, vn_ops = demo_ops,
                O_CREAT = 0x100, STR_MAX = 256\<rparr>"

definition demo_state :: kstate where
  "demo_state =
     \<lparr>vnodes = (\<lambda>a. \<lparr>vn_refcount = 1, vn_vno = a, vn_len = int (length (demo_entries a))\<rparr>),
      oplog = [], kmem_live = 0\<rparr>"

section \<open>What the functions compute\<close>

subsection \<open>lookup\<close>

lemma lookup_null_slot: "lookup env s dir name len None = (RInt (- 1), s, None)"
  by (simp add: lookup_def split: option.split)

subsection \<open>dir_namev\<close>

text \<open>The inner loop returns exactly when it has nothing to step over.\<close>

lemma dir_namev_scan_returns:
  assumes "dir_namev_scan p i e = Some r"
  shows "\<not> (i < int (length p) \<and> char_at p (nat i) \<noteq> CHR ''/'')"
  using assms
  by (rule dir_namev_scan.raw_induct
        [where P = "\<lambda>p i e r. \<not> (i < int (length p) \<and> char_at p (nat i) \<noteq> CHR ''/'')", rotated])
     (auto split: if_splits)

lemma dir_namev_scan_eq:
  "dir_namev_scan p i e =
     (if i < int (length p) then (if char_at p (nat i) = CHR ''/'' then Some (i - 1) else None)
      else Some e)"
proof (cases "i < int (length p) \<and> char_at p (nat i) \<noteq> CHR ''/''")
  case True
  have "dir_namev_scan p i e = None"
  proof (cases "dir_namev_scan p i e")
    case (Some r)
    from dir_namev_scan_returns[OF Some] True show ?thesis by simp
  qed simp
  with True show ?thesis by simp
next
  case False
  then show ?thesis by (subst dir_namev_scan.simps) auto
qed

lemma dir_namev_start_eq:
  "dir_namev_start env p base = (if base = None then p_cwd env else base)"
  by (simp add: dir_namev_start_def)

text \<open>
  The first round of the outer loop, where \<open>next_v_node\<close> is still \<open>NULL\<close>: the walk
  ends there, or never leaves the inner loop.
\<close>

lemma dir_namev_loop_first:
  assumes "next_v_node v = None" "terminate v = 0" "start_index v \<le> int (length p)"
  shows "dir_namev_loop env p s v out =
     (if start_index v = int (length p) then Some (Done (RInt 0, s, out))
      else if char_at p (nat (start_index v)) = CHR ''/'' then
        Some (Done (RInt (- 1), kmalloc s, out))
      else None)"
  using assms
  by (subst dir_namev_loop.simps) (simp add: dir_namev_scan_eq lookup_null_slot)

lemma dir_namev_eq:
  "dir_namev env s (Some p) out base =
     (case dir_namev_start env p base of
        None \<Rightarrow> Some Fault
      | Some a \<Rightarrow>
          (if p = [] \<or> p = ''/'' then Some (Done (RInt 0, vref s a, out))
           else if take 2 p = ''//'' then Some (Done (RInt (- 1), kmalloc (vref s a), out))
           else None))"
proof (cases p)
  case Nil
  then show ?thesis
    by (simp add: dir_namev_def dir_namev_loop_first char_at_def NUL_def split: option.split)
next
  case (Cons c cs)
  show ?thesis
  proof (cases cs)
    case Nil
    with Cons show ?thesis
      by (simp add: dir_namev_def dir_namev_loop_first char_at_def NUL_def split: option.split)
  next
    case (Cons d ds)
    with \<open>p = c # cs\<close> show ?thesis
      by (simp add: dir_namev_def dir_namev_loop_first char_at_def NUL_def split: option.split)
  qed
qed

text \<open>
  Whenever \<open>dir_namev\<close> returns from a path that is not \<open>NULL\<close>, the reference it took
  on its start node is still held, no output parameter has been written and no
  operation of a vnode has been called.
\<close>

lemma dir_namev_returns_unreleased:
  assumes "dir_namev env s (Some p) out base = Some (Done (r, s', out'))"
  shows "\<exists>a. dir_namev_start env p base = Some a \<and> out' = out
           \<and> vn_refcount (vnodes s' a) = vn_refcount (vnodes s a) + 1
           \<and> oplog s' = oplog s"
proof (cases "dir_namev_start env p base")
  case None
  with assms show ?thesis by (simp add: dir_namev_eq)
next
  case (Some a)
  with assms have "out' = out" and "s' = vref s a \<or> s' = kmalloc (vref s a)"
    by (auto simp: dir_namev_eq split: if_splits)
  then have "out' = out \<and> vn_refcount (vnodes s' a) = vn_refcount (vnodes s a) + 1
      \<and> oplog s' = oplog s"
    by (auto simp: vref_def kmalloc_def)
  with Some show ?thesis by simp
qed

subsection \<open>open_namev\<close>

lemma open_namev_eq:
  "open_namev env s (Some p) flag res_vnode base namelen0 name0 =
     (case dir_namev_start env p base of
        None \<Rightarrow> Some Fault
      | Some a \<Rightarrow>
          (if p = [] \<or> p = ''/'' then Some (Done (RInt (- 1), vref s a, res_vnode))
           else if take 2 p = ''//'' then Some (Done (RInt (- 1), kmalloc (vref s a), res_vnode))
           else None))"
  by (simp add: open_namev_def dir_namev_eq lookup_null_slot split: option.split)

lemma open_namev_null:
  "open_namev env s None flag res_vnode base namelen0 name0 =
     Some (Done (RInt (- 1), s, res_vnode))"
  by (simp add: open_namev_def)

subsection \<open>lookup_name and lookup_dirpath\<close>

lemma lookup_name_loop_null_dent:
  "lookup_name_loop env s d e buf sz offset None =
     (if offset \<noteq> vn_len (vnodes s d) then Some Fault else Some (Done (RNeg ENOENT, s, buf)))"
  by (subst lookup_name_loop.simps) (simp split: option.split prod.split)

lemma lookup_name_eq:
  "lookup_name env s (Some d) (Some e) buf sz =
     (if vn_len (vnodes s d) = 0 then Some (Done (RNeg ENOENT, s, buf)) else Some Fault)"
  by (simp add: lookup_name_def lookup_name_loop_null_dent)

lemma lookup_dirpath_walk_null_up:
  "lookup_dirpath_walk env s None (Some d) names_list total_length =
     Some (Done (kmalloc s, Inl (RInt (- 1))))"
  by (subst lookup_dirpath_walk.simps) (simp add: lookup_name_def)

lemma lookup_dirpath_eq:
  "lookup_dirpath env s (Some d) (Some b) (Suc n) =
     Some (Done (RInt (- 1), kmalloc s, Some b))"
  by (simp add: lookup_dirpath_def lookup_null_slot lookup_dirpath_walk_null_up)

subsection \<open>The scenario file system\<close>

lemma demo_start:
  "dir_namev_start demo_env p base = (case base of None \<Rightarrow> Some 4 | Some b \<Rightarrow> Some b)"
  by (simp add: dir_namev_start_eq demo_env_def split: option.split)

section \<open>The claims\<close>

text \<open>
  C1 (the code does otherwise). The claim: every node reference a call acquires and does
  not hand to its caller is released before the call returns, on every exit path. In
  the scenario file system, with the working directory \<open>tmp\<close> (vnode 4) holding one
  reference: \<open>dir_namev("//bin/ls", ..., NULL, ...)\<close> takes a reference on vnode 4, the
  lookup of its first component fails, and the call returns \<open>-1\<close> with the count of
  vnode 4 at two and \<open>*res_vnode\<close> untouched; \<open>open_namev("/", ...)\<close> returns \<open>-1\<close>
  and leaves the count of vnode 4 at two as well.
\<close>

theorem dir_namev_failure_keeps_reference:
  "dir_namev demo_env demo_state (Some ''//bin/ls'') out None =
     Some (Done (RInt (- 1), kmalloc (vref demo_state 4), out))
   \<and> vn_refcount (vnodes demo_state 4) = 1
   \<and> vn_refcount (vnodes (kmalloc (vref demo_state 4)) 4) = 2
   \<and> open_namev demo_env demo_state (Some ''/'') flag res_vnode None namelen0 name0 =
       Some (Done (RInt (- 1), vref demo_state 4, res_vnode))
   \<and> vn_refcount (vnodes (vref demo_state 4) 4) = 2"
  by (simp add: dir_namev_eq open_namev_eq demo_start vref_def kmalloc_def demo_state_def)

text \<open>
  C2 (the code does otherwise). The claim: with \<open>bin\<close> in the root and \<open>ls\<close> in
  \<open>bin\<close>, \<open>dir_namev("/bin/ls", &namelen, &name, NULL, &res_vnode)\<close> succeeds with the
  node of \<open>bin\<close>, the text \<open>ls\<close> and the length 2. In the scenario file system the
  call never returns: the inner loop stays at the \<open>b\<close> of \<open>bin\<close>.
\<close>

theorem dir_namev_bin_ls_never_returns:
  "dir_namev demo_env demo_state (Some ''/bin/ls'') out None = None
   \<and> dir_namev_scan ''/bin/ls'' 1 0 = None"
  by (simp add: dir_namev_eq demo_start dir_namev_scan_eq char_at_def)

text \<open>
  C3 (the code does otherwise). The claim: a path that starts with the separator is
  walked from \<open>vfs_root_vn\<close>, whatever \<open>base\<close> is. The node chosen by lines 80-89 for
  such a path is \<open>base\<close> when \<open>base\<close> is given and the working directory when it is
  \<open>NULL\<close>; in the scenario file system \<open>dir_namev("/", ..., base = bin, ...)\<close> takes
  its reference on \<open>bin\<close> (vnode 1) and none on the root (vnode 0).
\<close>

theorem dir_namev_absolute_path_starts_at_base:
  "dir_namev_start env (CHR ''/'' # rest) (Some b) = Some b
   \<and> dir_namev_start env (CHR ''/'' # rest) None = p_cwd env
   \<and> dir_namev demo_env demo_state (Some ''/'') out (Some 1) =
       Some (Done (RInt 0, vref demo_state 1, out))
   \<and> vn_refcount (vnodes (vref demo_state 1) 0) = vn_refcount (vnodes demo_state 0)
   \<and> vn_refcount (vnodes (vref demo_state 1) 1) = vn_refcount (vnodes demo_state 1) + 1"
  by (simp add: dir_namev_eq dir_namev_start_eq vref_def demo_state_def)

text \<open>
  C4 (the code does otherwise). The claim: when the parent directory resolves and the
  final component exists or is created, \<open>open_namev\<close> returns success with the node in
  \<open>*res_vnode\<close>. In the scenario file system \<open>open_namev("/bin/ls", ...)\<close> never
  returns, whatever the flag; and no call of \<open>open_namev\<close>, on any file system, returns
  \<open>0\<close>.
\<close>

theorem open_namev_existing_file_never_returns:
  "open_namev demo_env demo_state (Some ''/bin/ls'') flag res_vnode None namelen0 name0 = None
   \<and> open_namev env s pathname flag res_vnode base namelen0 name0
       \<noteq> Some (Done (RInt 0, s', res'))"
  by (cases pathname)
     (simp_all add: open_namev_eq open_namev_null demo_start split: option.split)

text \<open>
  C5 (the code does otherwise). The claim: when the parent directory resolves, the final
  component is absent and the create flag is not set, \<open>open_namev\<close> fails with
  \<open>ENOENT\<close>. In the scenario file system \<open>open_namev("/bin/nope", 0, ...)\<close> never
  returns; and no call of \<open>open_namev\<close>, on any file system, returns \<open>-ENOENT\<close>.
\<close>

theorem open_namev_missing_file_never_returns:
  "open_namev demo_env demo_state (Some ''/bin/nope'') 0 res_vnode None namelen0 name0 = None
   \<and> open_namev env s pathname flag res_vnode base namelen0 name0
       \<noteq> Some (Done (RNeg ENOENT, s', res'))"
  by (cases pathname)
     (simp_all add: open_namev_eq open_namev_null demo_start split: option.split)

text \<open>
  C6 (the code does otherwise). The claim: with a capacity too small, \<open>lookup_name\<close> and
  \<open>lookup_dirpath\<close> return \<open>-ERANGE\<close>, write within the capacity only and leave a
  terminated prefix; capacity 3 for the child \<open>abc\<close> leaves \<open>ab\<close> and a NUL. In the
  scenario file system \<open>lookup_name(root, abc, buf, 3)\<close> faults at \<open>dent->d_ino\<close>,
  \<open>dent\<close> being \<open>NULL\<close>. Lines 200-205 by themselves, for the name \<open>abc\<close> and the
  capacity 3, store \<open>a\<close> and \<open>b\<close>, leave \<open>buf[2]\<close> as it was and store the NUL at
  \<open>buf[3]\<close>, past the capacity. \<open>lookup_dirpath\<close> returns \<open>-1\<close> for every directory,
  every buffer and every capacity other than zero, with the buffer as it was.
\<close>

theorem lookup_name_truncation_faults:
  "lookup_name demo_env demo_state (Some 0) (Some 3) buf 3 = Some Fault
   \<and> fst (lookup_name_copy ''abc'' buf 3) = RNeg ERANGE
   \<and> snd (lookup_name_copy ''abc'' buf 3) 0 = CHR ''a''
   \<and> snd (lookup_name_copy ''abc'' buf 3) 1 = CHR ''b''
   \<and> snd (lookup_name_copy ''abc'' buf 3) 2 = buf 2
   \<and> snd (lookup_name_copy ''abc'' buf 3) 3 = NUL
   \<and> lookup_dirpath env s (Some d) (Some b) (Suc n) =
       Some (Done (RInt (- 1), kmalloc s, Some b))"
  by (simp add: lookup_name_eq lookup_name_copy_def strncpy_def size_dec_def char_at_def
        demo_state_def demo_entries_def lookup_dirpath_eq)

text \<open>
  C7 (the code does otherwise). The claim: \<open>lookup(dir, ".", len, result)\<close> with a
  non-empty slot stores \<open>dir\<close> in \<open>*result\<close>, takes one reference on it and does not
  call the directory's own lookup operation. In the scenario file system, for \<open>dir\<close>
  the directory \<open>bin\<close> (vnode 1) and a slot holding vnode 2, the call returns \<open>0\<close>, the
  lookup operation of \<open>bin\<close> has been called with \<open>.\<close>, and the slot still holds
  vnode 2. On any file system the caller's slot is as it was after a lookup of \<open>.\<close>.
\<close>

theorem lookup_dot_delegates_and_keeps_slot:
  "lookup demo_env demo_state (Some 1) (Some ''.'') 1 (Some 2) =
     (RInt 0, vref (demo_state\<lparr>oplog := [OpLookup 1 ''.'' 1]\<rparr>) 1, Some 2)
   \<and> snd (snd (lookup env s dir (Some ''.'') len slot)) = slot"
  by (simp add: lookup_def Let_def demo_env_def demo_ops_def demo_lookup_def demo_entries_def
        demo_state_def split: option.split prod.split)

text \<open>
  C8 (the code does otherwise). The claim: \<open>lookup_dirpath(rootNode, buf, 64)\<close> returns
  success and leaves \<open>/\<close> and a NUL in the buffer. In the scenario file system, whose
  root is its own parent, the call returns \<open>-1\<close> and the buffer is as it was; the block
  allocated for the first name is not freed.
\<close>

theorem lookup_dirpath_root_fails:
  "lookup_dirpath demo_env demo_state (Some 0) (Some buf) 64 =
     Some (Done (RInt (- 1), kmalloc demo_state, Some buf))"
  using lookup_dirpath_eq [of demo_env demo_state 0 buf 63] by simp

text \<open>
  C9 (the code does otherwise). The claim: \<open>dir_namev\<close> returns for every path and every
  base. In the scenario file system it never returns for the path \<open>ls\<close>, whatever the
  base, nor for \<open>bin/ls\<close> from the root: the inner loop of lines 99-104 does not
  change \<open>i\<close>, and stays at a character that is not the separator.
\<close>

theorem dir_namev_relative_path_never_returns:
  "dir_namev demo_env demo_state (Some ''ls'') out base = None
   \<and> dir_namev demo_env demo_state (Some ''bin/ls'') out (Some 0) = None
   \<and> dir_namev_scan ''ls'' 0 0 = None"
  by (simp add: dir_namev_eq demo_start dir_namev_scan_eq char_at_def split: option.split)

text \<open>
  C10. Whenever \<open>lookup\<close> is called with a result slot that holds \<open>NULL\<close> on entry, it
  returns the error \<open>-1\<close> at once: whatever the directory, the name and the operations
  of the directory are, the kernel state (reference counts, record of operation calls)
  and the slot are unchanged. The calls that \<open>dir_namev\<close> and \<open>lookup_dirpath\<close> make
  pass such a slot: an intermediate component of \<open>dir_namev\<close> (here the empty one of
  a path starting with two separators) and the \<open>..\<close> step of \<open>lookup_dirpath\<close> end
  in \<open>-1\<close> with no operation of any vnode called.
\<close>

theorem lookup_null_slot_is_error:
  "lookup env s dir name len None = (RInt (- 1), s, None)
   \<and> dir_namev env s (Some (CHR ''/'' # CHR ''/'' # rest)) out (Some b) =
       Some (Done (RInt (- 1), kmalloc (vref s b), out))
   \<and> lookup_dirpath env s (Some d) (Some buf) (Suc n) =
       Some (Done (RInt (- 1), kmalloc s, Some buf))"
  by (simp add: lookup_null_slot dir_namev_eq dir_namev_start_eq lookup_dirpath_eq)

end
